theory Spec2Isabelle
  imports Complex_Main
begin

section \<open>Geodesic polygon offset: \<^verbatim>\<open>source/cpp/math/expandingPolygon.h\<close>\<close>

text \<open>
  The header declares two classes, \<^verbatim>\<open>LatLong\<close> (a latitude/longitude pair in degrees)
  and \<^verbatim>\<open>Polygon\<close> (the input vertices, the storage of the offset result, and the
  method \<^verbatim>\<open>enlarge\<close> with its three helpers).

  Numbers. Every \<^verbatim>\<open>double\<close> of the source is a \<open>real\<close> here, and \<^verbatim>\<open>std::sin\<close>,
  \<^verbatim>\<open>std::cos\<close>, \<^verbatim>\<open>std::asin\<close>, \<^verbatim>\<open>std::atan2\<close> and \<^verbatim>\<open>std::fmod\<close> are the real
  functions they approximate. Rounding, infinities, NaN and the sign of zero are therefore
  outside the model: every theorem below is a statement about the formulas of the source
  in exact arithmetic, and only statements that rounding cannot overturn are made (the
  structure of the result, ranges with the bound of the source's own \<^verbatim>\<open>fmod\<close>, an
  inequality with a wide margin). Indices (\<^verbatim>\<open>size_t\<close>) are natural numbers; the only arithmetic on
  them is \<^verbatim>\<open>(i + n - 1) % n\<close> and \<^verbatim>\<open>(i + 1) % n\<close> with \<open>i < n\<close>, which cannot wrap for
  any vector that fits in memory.
\<close>

subsection \<open>Data\<close>

record LatLong =
  latitude :: real
  longitude :: real

record Polygon =
  vertices :: "LatLong list"
  enlargedVertices :: "LatLong list"

subsection \<open>Constants\<close>

definition EARTH_RADIUS :: real where
  "EARTH_RADIUS = 6371000"

text \<open>
  The source writes \<^verbatim>\<open>PI = 3.14159265358979323846\<close>, the decimal expansion of \<open>\<pi>\<close> to
  twenty-one digits, which as a \<^verbatim>\<open>double\<close> is the machine number nearest to \<open>\<pi>\<close>. In exact
  arithmetic the constant is \<open>\<pi>\<close> itself.
\<close>

definition PI :: real where
  "PI = pi"

definition DEG_TO_RAD :: real where
  "DEG_TO_RAD = PI / 180"

definition RAD_TO_DEG :: real where
  "RAD_TO_DEG = 180 / PI"

subsection \<open>The library functions \<^verbatim>\<open>std::fmod\<close> and \<^verbatim>\<open>std::atan2\<close>\<close>

text \<open>
  \<^verbatim>\<open>fmod(x, y)\<close> is \<open>x - n * y\<close> with \<open>n\<close> the quotient \<open>x / y\<close> truncated towards zero,
  so the result has the sign of \<open>x\<close>. The source only ever divides by \<^verbatim>\<open>2 * PI\<close>; for
  \<open>y = 0\<close>, where C returns NaN, the model returns \<open>x\<close>.
\<close>

definition fmod :: "real \<Rightarrow> real \<Rightarrow> real" where
  "fmod x y = x - y * of_int (if 0 \<le> x / y then \<lfloor>x / y\<rfloor> else \<lceil>x / y\<rceil>)"

text \<open>
  \<^verbatim>\<open>atan2(y, x)\<close> is the angle of the point \<open>(x, y)\<close> in \<open>(-\<pi>, \<pi>]\<close>; at the origin C
  returns a zero for a positive zero \<open>x\<close>, which is the value taken here.
\<close>

definition atan2 :: "real \<Rightarrow> real \<Rightarrow> real" where
  "atan2 y x =
     (if 0 < x then arctan (y / x)
      else if x < 0 then (if 0 \<le> y then arctan (y / x) + pi else arctan (y / x) - pi)
      else if 0 < y then pi / 2
      else if y < 0 then - (pi / 2)
      else 0)"

subsection \<open>\<^verbatim>\<open>Polygon::calculateBearing\<close>\<close>

definition calculateBearing :: "LatLong \<Rightarrow> LatLong \<Rightarrow> real" where
  "calculateBearing from to =
     (let dLon = (longitude to - longitude from) * DEG_TO_RAD;
          lat1 = latitude from * DEG_TO_RAD;
          lat2 = latitude to * DEG_TO_RAD;
          y = sin dLon * cos lat2;
          x = cos lat1 * sin lat2 - sin lat1 * cos lat2 * cos dLon
      in fmod (atan2 y x + 2 * PI) (2 * PI))"

subsection \<open>\<^verbatim>\<open>Polygon::calculateAngleBisector\<close>\<close>

text \<open>
  The function computes two locals, \<^verbatim>\<open>angleDifference\<close> and \<^verbatim>\<open>bisectorBearing\<close>, and then
  returns \<^verbatim>\<open>LatLong(std::cos(bisectorBearing), std::sin(bisectorBearing))\<close>. The two locals
  are definitions of their own, each the value the variable holds after its last
  assignment, so that statements about them can be made.
\<close>

definition angleDifference :: "LatLong \<Rightarrow> LatLong \<Rightarrow> LatLong \<Rightarrow> real" where
  "angleDifference prev current next =
     (let bearing1 = calculateBearing current prev;
          bearing2 = calculateBearing current next;
          angleDifference = bearing2 - bearing1
      in if angleDifference < 0 then angleDifference + 2 * PI else angleDifference)"

definition bisectorBearing :: "LatLong \<Rightarrow> LatLong \<Rightarrow> LatLong \<Rightarrow> real" where
  "bisectorBearing prev current next =
     (let bearing1 = calculateBearing current prev;
          bearing2 = calculateBearing current next;
          bisectorBearing = (bearing1 + bearing2) / 2;
          bisectorBearing =
            (if angleDifference prev current next > PI then bisectorBearing + PI
             else bisectorBearing)
      in fmod bisectorBearing (2 * PI))"

definition calculateAngleBisector :: "LatLong \<Rightarrow> LatLong \<Rightarrow> LatLong \<Rightarrow> LatLong" where
  "calculateAngleBisector prev current next =
     \<lparr>latitude = cos (bisectorBearing prev current next),
      longitude = sin (bisectorBearing prev current next)\<rparr>"

subsection \<open>\<^verbatim>\<open>Polygon::movePoint\<close>\<close>

text \<open>
  The formula of the source, term for term, over the reals. Two things the program does
  in \<^verbatim>\<open>double\<close> arithmetic are not in this definition. The argument of \<^verbatim>\<open>std::asin\<close> can
  round above 1 near the poles, and \<^verbatim>\<open>std::asin\<close> then returns NaN, which spreads to both
  coordinates; and \<^verbatim>\<open>asin(sin(lat1)) * RAD_TO_DEG\<close> need not give back the latitude it
  started from, so a distance of 0 can move the point by a rounding error. How far the
  point moves, whether a larger distance moves it further, and whether distance 0 returns
  the point itself are therefore questions about rounding, which this definition cannot
  answer, and no statement about them is made. \<^verbatim>\<open>movePoint\<close> is used below for the
  structure of the output of \<^verbatim>\<open>enlarge\<close>, where its value is not inspected, and in lemma
  \<open>movePoint_east_of_antimeridian\<close>, whose exact value serves only to derive an inequality
  on a longitude that holds with a margin of about 0.009 degrees.
\<close>

definition movePoint :: "LatLong \<Rightarrow> real \<Rightarrow> real \<Rightarrow> LatLong" where
  "movePoint point bearing distance =
     (let d = distance / EARTH_RADIUS;
          lat1 = latitude point * DEG_TO_RAD;
          lon1 = longitude point * DEG_TO_RAD;
          lat2 = arcsin (sin lat1 * cos d + cos lat1 * sin d * cos bearing);
          lon2 = lon1 + atan2 (sin bearing * sin d * cos lat1) (cos d - sin lat1 * sin lat2)
      in \<lparr>latitude = lat2 * RAD_TO_DEG, longitude = lon2 * RAD_TO_DEG\<rparr>)"

subsection \<open>\<^verbatim>\<open>Polygon::enlarge\<close>\<close>

text \<open>
  \<^verbatim>\<open>operator[]\<close> of \<^verbatim>\<open>std::vector\<close> past the end is undefined behaviour; the model
  makes it an error value, so that "the loop never reads out of range" is a statement.
\<close>

datatype error = OutOfRange

definition vector_at :: "'a list \<Rightarrow> nat \<Rightarrow> error + 'a" where
  "vector_at xs i = (if i < length xs then Inr (xs ! i) else Inl OutOfRange)"

text \<open>
  One iteration of the loop (lines 38 to 46). The source declares
  \<^verbatim>\<open>LatLong bisector = calculateAngleBisector(...)\<close> and passes this object to
  \<^verbatim>\<open>movePoint(curr, bisector, distance)\<close>, whose second parameter is \<^verbatim>\<open>double bearing\<close>.
  \<^verbatim>\<open>LatLong\<close> declares no conversion to \<^verbatim>\<open>double\<close>, so the source determines no number
  for that argument. The model takes the conversion as the parameter \<open>toBearing\<close>;
  nothing is assumed about it, and every statement about \<open>enlarge\<close> holds for each choice.
\<close>

definition enlarge_step :: "(LatLong \<Rightarrow> real) \<Rightarrow> real \<Rightarrow> nat \<Rightarrow> Polygon \<Rightarrow> error + Polygon" where
  "enlarge_step toBearing distance i P =
     (let n = length (vertices P);
          prev = (i + n - 1) mod n;
          next = (i + 1) mod n
      in case vector_at (vertices P) i of
           Inl e \<Rightarrow> Inl e
         | Inr vcurr \<Rightarrow>
            (case vector_at (vertices P) prev of
               Inl e \<Rightarrow> Inl e
             | Inr vprev \<Rightarrow>
                (case vector_at (vertices P) next of
                   Inl e \<Rightarrow> Inl e
                 | Inr vnext \<Rightarrow>
                    (let bisector = calculateAngleBisector vprev vcurr vnext;
                         enlargedVertex = movePoint vcurr (toBearing bisector) distance
                     in Inr (P\<lparr>enlargedVertices := enlargedVertices P @ [enlargedVertex]\<rparr>)))))"

text \<open>
  The loop \<^verbatim>\<open>for (size_t i = 0; i < vertices.size(); ++i)\<close>, from index \<open>i\<close> on. It
  reads \<^verbatim>\<open>vertices.size()\<close> anew at every test, as the source does.
\<close>

function enlarge_loop :: "(LatLong \<Rightarrow> real) \<Rightarrow> real \<Rightarrow> nat \<Rightarrow> Polygon \<Rightarrow> error + Polygon" where
  "enlarge_loop toBearing distance i P =
     (if i < length (vertices P) then
        (case enlarge_step toBearing distance i P of
           Inl e \<Rightarrow> Inl e
         | Inr P' \<Rightarrow> enlarge_loop toBearing distance (Suc i) P')
      else Inr P)"
  by pat_completeness auto
termination
  by (relation "measure (\<lambda>(toBearing, distance, i, P). length (vertices P) - i)")
    (auto simp: enlarge_step_def Let_def split: sum.splits)

declare enlarge_loop.simps [simp del]

text \<open>
  \<^verbatim>\<open>enlarge\<close> itself. \<^verbatim>\<open>reserve\<close> changes the capacity of the output vector only and
  has no counterpart here. \<^verbatim>\<open>this->enlargedVertices = std::move(vertices)\<close> is the move
  assignment of \<^verbatim>\<open>std::vector\<close> with the default allocator: the output takes over the
  buffer of \<^verbatim>\<open>vertices\<close>, its own former elements are destroyed, and \<^verbatim>\<open>vertices\<close> is
  left empty. There is no \<^verbatim>\<open>return\<close> and no \<^verbatim>\<open>else\<close> after it: control reaches the loop
  on both paths. The method returns \<^verbatim>\<open>void\<close> and works on the object, so the model
  returns the object's new state; the default argument \<^verbatim>\<open>distance = 0\<close> makes a call
  without argument the call \<open>enlarge toBearing P 0\<close>.
\<close>

definition enlarge :: "(LatLong \<Rightarrow> real) \<Rightarrow> Polygon \<Rightarrow> real \<Rightarrow> error + Polygon" where
  "enlarge toBearing P distance =
     (if length (vertices P) < 3 then Inr P
      else
        (let P1 = (if distance = 0
                   then P\<lparr>enlargedVertices := vertices P, vertices := []\<rparr>
                   else P)
         in enlarge_loop toBearing distance 0 P1))"

text \<open>A caller that invokes \<^verbatim>\<open>enlarge\<close> twice in succession on the same object.\<close>

definition enlarge_twice :: "(LatLong \<Rightarrow> real) \<Rightarrow> Polygon \<Rightarrow> real \<Rightarrow> error + Polygon" where
  "enlarge_twice toBearing P distance =
     (case enlarge toBearing P distance of
        Inl e \<Rightarrow> Inl e
      | Inr P' \<Rightarrow> enlarge toBearing P' distance)"

subsection \<open>Notions the statements need\<close>

text \<open>
  The vertex that the loop appends for index \<open>i\<close>, with the neighbours written the way
  the specification writes them, over the integers: \<open>prev = (i - 1 + n) mod n\<close> and
  \<open>next = (i + 1) mod n\<close>. Lemma \<open>offsetVertex_indices\<close> shows these are the indices
  \<^verbatim>\<open>(i + n - 1) % n\<close> and \<^verbatim>\<open>(i + 1) % n\<close> that the source computes in \<^verbatim>\<open>size_t\<close>.
\<close>

definition offsetVertex :: "(LatLong \<Rightarrow> real) \<Rightarrow> LatLong list \<Rightarrow> real \<Rightarrow> nat \<Rightarrow> LatLong" where
  "offsetVertex toBearing vs distance i =
     (let n = int (length vs);
          prev = nat ((int i - 1 + n) mod n);
          next = nat ((int i + 1) mod n)
      in movePoint (vs ! i)
           (toBearing (calculateAngleBisector (vs ! prev) (vs ! i) (vs ! next))) distance)"

text \<open>
  The square of the specification's examples, vertices as (latitude, longitude):
  (0, 0), (0, 0.01), (0.01, 0.01), (0.01, 0).
\<close>

definition spec_square :: "LatLong list" where
  "spec_square =
     [\<lparr>latitude = 0, longitude = 0\<rparr>, \<lparr>latitude = 0, longitude = 0.01\<rparr>,
      \<lparr>latitude = 0.01, longitude = 0.01\<rparr>, \<lparr>latitude = 0.01, longitude = 0\<rparr>]"

section \<open>The orchestrator: structure of the result\<close>

lemma prev_index: "i < n \<Longrightarrow> nat ((int i - 1 + int n) mod int n) = (i + n - 1) mod n"
proof -
  assume "i < n"
  then have "int i - 1 + int n = int (i + n - 1)" by simp
  then have "(int i - 1 + int n) mod int n = int ((i + n - 1) mod n)"
    by (simp only: zmod_int)
  then show ?thesis by (simp only: nat_int)
qed

lemma next_index: "nat ((int i + 1) mod int n) = (i + 1) mod n"
proof -
  have "int i + 1 = int (i + 1)" by simp
  then have "(int i + 1) mod int n = int ((i + 1) mod n)"
    by (simp only: zmod_int)
  then show ?thesis by (simp only: nat_int)
qed

lemma offsetVertex_indices:
  assumes "i < length vs"
  shows "offsetVertex toBearing vs distance i =
     movePoint (vs ! i)
       (toBearing (calculateAngleBisector (vs ! ((i + length vs - 1) mod length vs)) (vs ! i)
          (vs ! ((i + 1) mod length vs)))) distance"
  by (simp only: offsetVertex_def Let_def prev_index [OF assms] next_index)

lemma enlarge_step_ok:
  assumes "i < length (vertices P)"
  shows "enlarge_step toBearing distance i P =
     Inr (P\<lparr>enlargedVertices := enlargedVertices P @ [offsetVertex toBearing (vertices P) distance i]\<rparr>)"
proof -
  let ?n = "length (vertices P)"
  have "0 < ?n" using assms by (cases "vertices P") simp_all
  then have "(i + ?n - 1) mod ?n < ?n" "(i + 1) mod ?n < ?n"
    by (rule mod_less_divisor)+
  then show ?thesis
    using assms
    by (simp add: enlarge_step_def vector_at_def offsetVertex_indices Let_def)
qed

lemma enlarge_loop_empty: "vertices P = [] \<Longrightarrow> enlarge_loop toBearing distance i P = Inr P"
  by (simp add: enlarge_loop.simps)

lemma enlarge_loop_run:
  "i \<le> length (vertices P) \<Longrightarrow>
   enlarge_loop toBearing distance i P =
     Inr (P\<lparr>enlargedVertices :=
            enlargedVertices P @ map (offsetVertex toBearing (vertices P) distance) [i..<length (vertices P)]\<rparr>)"
proof (induction toBearing distance i P rule: enlarge_loop.induct)
  case (1 toBearing distance i P)
  show ?case
  proof (cases "i < length (vertices P)")
    case True
    let ?P' = "P\<lparr>enlargedVertices := enlargedVertices P @ [offsetVertex toBearing (vertices P) distance i]\<rparr>"
    have step: "enlarge_step toBearing distance i P = Inr ?P'"
      using True by (rule enlarge_step_ok)
    have "enlarge_loop toBearing distance (Suc i) ?P' =
        Inr (?P'\<lparr>enlargedVertices :=
            enlargedVertices ?P' @ map (offsetVertex toBearing (vertices ?P') distance) [Suc i..<length (vertices ?P')]\<rparr>)"
      using "1.IH" [OF True step] True by simp
    then show ?thesis
      using True step by (subst enlarge_loop.simps) (simp add: upt_conv_Cons)
  next
    case False
    then show ?thesis using "1.prems" by (subst enlarge_loop.simps) simp
  qed
qed

lemma enlarge_small: "length (vertices P) < 3 \<Longrightarrow> enlarge toBearing P distance = Inr P"
  by (simp add: enlarge_def)

lemma enlarge_zero:
  "3 \<le> length (vertices P) \<Longrightarrow>
   enlarge toBearing P 0 = Inr (P\<lparr>enlargedVertices := vertices P, vertices := []\<rparr>)"
  by (simp add: enlarge_def enlarge_loop_empty)

lemma enlarge_general:
  "3 \<le> length (vertices P) \<Longrightarrow> distance \<noteq> 0 \<Longrightarrow>
   enlarge toBearing P distance =
     Inr (P\<lparr>enlargedVertices :=
            enlargedVertices P @ map (offsetVertex toBearing (vertices P) distance) [0..<length (vertices P)]\<rparr>)"
  by (simp add: enlarge_def enlarge_loop_run)

section \<open>The numeric helpers\<close>

lemma fmod_range:
  assumes "0 \<le> x" and "0 < y"
  shows "0 \<le> fmod x y" and "fmod x y < y"
proof -
  have q: "0 \<le> x / y" using assms by simp
  have f: "fmod x y = x - y * of_int \<lfloor>x / y\<rfloor>" using q by (simp add: fmod_def)
  have yq: "y * (x / y) = x" using assms(2) by simp
  have "y * of_int \<lfloor>x / y\<rfloor> \<le> y * (x / y)"
    using assms(2) by (intro mult_left_mono) simp_all
  then show "0 \<le> fmod x y" using f yq by simp
  have "x / y < of_int \<lfloor>x / y\<rfloor> + 1" by linarith
  then have "y * (x / y) < y * (of_int \<lfloor>x / y\<rfloor> + 1)"
    using assms(2) by (intro mult_strict_left_mono) simp_all
  then show "fmod x y < y" using f yq by (simp add: algebra_simps)
qed

lemma fmod_small:
  assumes "0 \<le> x" and "x < y"
  shows "fmod x y = x"
proof -
  have "0 \<le> x / y" "x / y < 1" using assms by simp_all
  then have "\<lfloor>x / y\<rfloor> = 0" by linarith
  then show ?thesis using \<open>0 \<le> x / y\<close> by (simp add: fmod_def)
qed

lemma fmod_wrap:
  assumes "y \<le> x" and "x < 2 * y" and "0 < y"
  shows "fmod x y = x - y"
proof -
  have "1 \<le> x / y" "x / y < 2" using assms by (simp_all add: pos_le_divide_eq pos_divide_less_eq)
  then have "\<lfloor>x / y\<rfloor> = 1" by linarith
  then show ?thesis using \<open>1 \<le> x / y\<close> by (simp add: fmod_def)
qed

lemma atan2_bounds: "- pi < atan2 y x" "atan2 y x \<le> pi"
proof -
  have a: "- (pi / 2) < arctan (y / x)" "arctan (y / x) < pi / 2"
    by (rule arctan_lbound, rule arctan_ubound)
  have neg: "arctan (y / x) \<le> 0" if "x < 0" "0 \<le> y"
  proof -
    have "y / x \<le> 0" using that by (simp add: divide_nonneg_neg)
    then show ?thesis by (simp add: arctan_le_zero_iff)
  qed
  have pos: "0 < arctan (y / x)" if "x < 0" "y < 0"
  proof -
    have "0 < y / x" using that by (simp add: divide_neg_neg)
    then show ?thesis by (simp add: zero_less_arctan_iff)
  qed
  show "- pi < atan2 y x"
    using a neg pos pi_gt_zero by (auto simp: atan2_def)
  show "atan2 y x \<le> pi"
    using a neg pos pi_gt_zero by (auto simp: atan2_def)
qed

lemma calculateBearing_range:
  "0 \<le> calculateBearing a b" "calculateBearing a b < 2 * pi"
proof -
  define t where "t = atan2 (sin ((longitude b - longitude a) * DEG_TO_RAD) * cos (latitude b * DEG_TO_RAD))
     (cos (latitude a * DEG_TO_RAD) * sin (latitude b * DEG_TO_RAD)
       - sin (latitude a * DEG_TO_RAD) * cos (latitude b * DEG_TO_RAD) * cos ((longitude b - longitude a) * DEG_TO_RAD))"
  have cb: "calculateBearing a b = fmod (t + 2 * pi) (2 * pi)"
    by (simp add: calculateBearing_def Let_def t_def PI_def)
  have "0 \<le> t + 2 * pi" using atan2_bounds(1) [of _ _] pi_gt_zero unfolding t_def
    by (smt (verit))
  then show "0 \<le> calculateBearing a b" "calculateBearing a b < 2 * pi"
    unfolding cb using fmod_range [of "t + 2 * pi" "2 * pi"] pi_gt_zero by simp_all
qed


lemma angleDifference_range:
  "0 \<le> angleDifference p c n" "angleDifference p c n < 2 * pi"
  using calculateBearing_range [of c p] calculateBearing_range [of c n]
  by (simp_all add: angleDifference_def Let_def PI_def)

lemma bisectorBearing_cases:
  "bisectorBearing p c n =
     (if angleDifference p c n > pi
      then (if (calculateBearing c p + calculateBearing c n) / 2 < pi
            then (calculateBearing c p + calculateBearing c n) / 2 + pi
            else (calculateBearing c p + calculateBearing c n) / 2 - pi)
      else (calculateBearing c p + calculateBearing c n) / 2)"
proof -
  define m where "m = (calculateBearing c p + calculateBearing c n) / 2"
  have m: "0 \<le> m" "m < 2 * pi"
    using calculateBearing_range [of c p] calculateBearing_range [of c n]
    by (simp_all add: m_def)
  have b: "bisectorBearing p c n =
      fmod (if angleDifference p c n > pi then m + pi else m) (2 * pi)"
    by (simp add: bisectorBearing_def Let_def PI_def m_def)
  have 1: "fmod m (2 * pi) = m" using m by (rule fmod_small)
  have 2: "fmod (m + pi) (2 * pi) = m + pi" if "m < pi"
    using that m by (intro fmod_small) simp_all
  have 3: "fmod (m + pi) (2 * pi) = m - pi" if "\<not> m < pi"
    using that m fmod_wrap [of "2 * pi" "m + pi"] by simp
  show ?thesis
    unfolding b m_def [symmetric] using 1 2 3 by simp
qed

lemma bisectorBearing_range:
  "0 \<le> bisectorBearing p c n" "bisectorBearing p c n < 2 * pi"
proof -
  define m where "m = (calculateBearing c p + calculateBearing c n) / 2"
  have m: "0 \<le> m" "m < 2 * pi"
    using calculateBearing_range [of c p] calculateBearing_range [of c n]
    by (simp_all add: m_def)
  show "0 \<le> bisectorBearing p c n" "bisectorBearing p c n < 2 * pi"
    unfolding bisectorBearing_cases m_def [symmetric] using m pi_gt_zero by auto
qed

section \<open>Evaluations at the square of the specification\<close>

lemma sin_degrees_pos:
  assumes "0 < l" and "l < 180"
  shows "0 < sin (l * DEG_TO_RAD)"
proof -
  have "0 < l * (pi / 180)" using assms(1) by simp
  moreover have "l * (pi / 180) < 180 * (pi / 180)"
    using assms(2) by (intro mult_strict_right_mono) simp_all
  then have "l * (pi / 180) < pi" by simp
  ultimately show ?thesis unfolding DEG_TO_RAD_def PI_def by (rule sin_gt_zero)
qed

lemma bearing_north:
  assumes "0 < l" and "l < 180"
  shows "calculateBearing \<lparr>latitude = 0, longitude = 0\<rparr> \<lparr>latitude = l, longitude = 0\<rparr> = 0"
proof -
  have "calculateBearing \<lparr>latitude = 0, longitude = 0\<rparr> \<lparr>latitude = l, longitude = 0\<rparr>
      = fmod (atan2 0 (sin (l * DEG_TO_RAD)) + 2 * pi) (2 * pi)"
    by (simp add: calculateBearing_def Let_def PI_def)
  also have "atan2 0 (sin (l * DEG_TO_RAD)) = 0"
    using sin_degrees_pos [OF assms] by (simp add: atan2_def)
  also have "fmod (0 + 2 * pi) (2 * pi) = 0"
    using fmod_wrap [of "2 * pi" "2 * pi"] by simp
  finally show ?thesis .
qed

lemma bearing_east:
  assumes "0 < l" and "l < 180"
  shows "calculateBearing \<lparr>latitude = 0, longitude = 0\<rparr> \<lparr>latitude = 0, longitude = l\<rparr> = pi / 2"
proof -
  have "calculateBearing \<lparr>latitude = 0, longitude = 0\<rparr> \<lparr>latitude = 0, longitude = l\<rparr>
      = fmod (atan2 (sin (l * DEG_TO_RAD)) 0 + 2 * pi) (2 * pi)"
    by (simp add: calculateBearing_def Let_def PI_def)
  also have "atan2 (sin (l * DEG_TO_RAD)) 0 = pi / 2"
    using sin_degrees_pos [OF assms] by (simp add: atan2_def)
  also have "fmod (pi / 2 + 2 * pi) (2 * pi) = pi / 2"
    using fmod_wrap [of "2 * pi" "pi / 2 + 2 * pi"] by simp
  finally show ?thesis .
qed

lemma bisector_convex_corner:
  assumes "0 < l" and "l < 180"
  shows "bisectorBearing \<lparr>latitude = l, longitude = 0\<rparr> \<lparr>latitude = 0, longitude = 0\<rparr>
     \<lparr>latitude = 0, longitude = l\<rparr> = pi / 4"
proof -
  note n = bearing_north [OF assms] and e = bearing_east [OF assms]
  have ad: "angleDifference \<lparr>latitude = l, longitude = 0\<rparr> \<lparr>latitude = 0, longitude = 0\<rparr>
     \<lparr>latitude = 0, longitude = l\<rparr> = pi / 2"
    unfolding angleDifference_def Let_def n e by simp
  show ?thesis
    unfolding bisectorBearing_cases ad n e using pi_gt_zero by simp
qed

lemma bisector_reflex_corner:
  assumes "0 < l" and "l < 180"
  shows "bisectorBearing \<lparr>latitude = 0, longitude = l\<rparr> \<lparr>latitude = 0, longitude = 0\<rparr>
     \<lparr>latitude = l, longitude = 0\<rparr> = 5 * pi / 4"
proof -
  note n = bearing_north [OF assms] and e = bearing_east [OF assms]
  have ad: "angleDifference \<lparr>latitude = 0, longitude = l\<rparr> \<lparr>latitude = 0, longitude = 0\<rparr>
     \<lparr>latitude = l, longitude = 0\<rparr> = 3 * pi / 2"
    unfolding angleDifference_def Let_def n e by (simp add: PI_def)
  show ?thesis
    unfolding bisectorBearing_cases ad n e using pi_gt_zero by simp
qed

lemma calculateAngleBisector_at_origin:
  "calculateAngleBisector \<lparr>latitude = 0.01, longitude = 0\<rparr> \<lparr>latitude = 0, longitude = 0\<rparr>
     \<lparr>latitude = 0, longitude = 0.01\<rparr> = \<lparr>latitude = sqrt 2 / 2, longitude = sqrt 2 / 2\<rparr>"
proof -
  have "bisectorBearing \<lparr>latitude = 0.01, longitude = 0\<rparr> \<lparr>latitude = 0, longitude = 0\<rparr>
     \<lparr>latitude = 0, longitude = 0.01\<rparr> = pi / 4"
    by (rule bisector_convex_corner) simp_all
  then show ?thesis
    unfolding calculateAngleBisector_def by (simp only: cos_45 sin_45)
qed

lemma movePoint_east_of_antimeridian:
  assumes "0 < distance" and "distance < pi / 2 * EARTH_RADIUS"
  shows "movePoint \<lparr>latitude = 0, longitude = 180\<rparr> (pi / 2) distance
       = \<lparr>latitude = 0, longitude = 180 + distance / EARTH_RADIUS * (180 / pi)\<rparr>"
proof -
  define x where "x = distance / EARTH_RADIUS"
  have x: "0 < x" "x < pi / 2"
    using assms by (simp_all add: x_def EARTH_RADIUS_def field_simps)
  have c: "0 < cos x" using x by (simp add: cos_gt_zero_pi)
  have "arctan (sin x / cos x) = x"
    using x arctan_tan [of x] by (simp add: tan_def)
  then have a: "atan2 (sin x) (cos x) = x" using c by (simp add: atan2_def)
  have l: "(180 * DEG_TO_RAD + x) * RAD_TO_DEG = 180 + x * (180 / pi)"
    by (simp add: DEG_TO_RAD_def RAD_TO_DEG_def PI_def distrib_right add_divide_distrib)
  show ?thesis
    unfolding movePoint_def Let_def x_def [symmetric] by (simp add: a l)
qed

lemma enlarge_fresh_output:
  assumes "3 \<le> length (vertices P)" and "distance \<noteq> 0" and "enlargedVertices P = []"
  shows "\<exists>P'. enlarge toBearing P distance = Inr P'
       \<and> vertices P' = vertices P
       \<and> length (enlargedVertices P') = length (vertices P)
       \<and> (\<forall>i < length (vertices P).
            enlargedVertices P' ! i = offsetVertex toBearing (vertices P) distance i)"
  using assms by (simp add: enlarge_general)

section \<open>The claims\<close>

text \<open>
  Claim C1 (zero-distance identity). For a polygon with at least three vertices,
  \<^verbatim>\<open>enlarge(0)\<close> returns normally with the output equal to the input vertex sequence,
  element for element, whatever the output held before. The result is the one the branch
  \<^verbatim>\<open>distance == 0.0\<close> makes: the loop that follows it starts from that state and leaves
  it as it is, because the loop bound \<^verbatim>\<open>vertices.size()\<close> is then 0, so no bisector and no
  projection is computed (the statement holds for every \<open>toBearing\<close>). The same equation shows
  what the branch does to the input, which is the subject of C3.
\<close>

theorem enlarge_zero_distance_identity:
  assumes "3 \<le> length (vertices P)"
  shows "enlarge toBearing P 0 = Inr (P\<lparr>enlargedVertices := vertices P, vertices := []\<rparr>)
       \<and> enlarge_loop toBearing 0 0 (P\<lparr>enlargedVertices := vertices P, vertices := []\<rparr>)
           = Inr (P\<lparr>enlargedVertices := vertices P, vertices := []\<rparr>)"
  using assms by (simp add: enlarge_zero enlarge_loop_empty)

theorem enlarge_zero_distance_identity_witness:
  "enlarge latitude \<lparr>vertices = spec_square, enlargedVertices = [\<lparr>latitude = 7, longitude = 7\<rparr>]\<rparr> 0
     = Inr \<lparr>vertices = [], enlargedVertices = spec_square\<rparr>
   \<and> enlarge_loop latitude 0 0 \<lparr>vertices = [], enlargedVertices = spec_square\<rparr>
     = Inr \<lparr>vertices = [], enlargedVertices = spec_square\<rparr>"
  using enlarge_zero_distance_identity
    [where P = "\<lparr>vertices = spec_square, enlargedVertices = [\<lparr>latitude = 7, longitude = 7\<rparr>]\<rparr>"
       and toBearing = latitude]
  by (simp add: spec_square_def)

text \<open>
  Claim C2 (fresh output, idempotent re-invocation) fails on the code. On the square of the
  specification and distance 1000, the first call yields the four offset vertices; the
  second call on the same object yields eight: the first four followed by the same four
  again. \<^verbatim>\<open>enlarge\<close> never clears \<^verbatim>\<open>enlargedVertices\<close> before \<^verbatim>\<open>push_back\<close>; only the
  branch for distance 0 replaces its contents.
\<close>

theorem enlarge_twice_accumulates:
  "enlarge toBearing \<lparr>vertices = spec_square, enlargedVertices = []\<rparr> 1000
     = Inr \<lparr>vertices = spec_square,
           enlargedVertices = map (offsetVertex toBearing spec_square 1000) [0..<4]\<rparr>
   \<and> enlarge_twice toBearing \<lparr>vertices = spec_square, enlargedVertices = []\<rparr> 1000
     = Inr \<lparr>vertices = spec_square,
           enlargedVertices = map (offsetVertex toBearing spec_square 1000) [0..<4]
             @ map (offsetVertex toBearing spec_square 1000) [0..<4]\<rparr>
   \<and> length (map (offsetVertex toBearing spec_square 1000) [0..<4]
             @ map (offsetVertex toBearing spec_square 1000) [0..<4]) = 8"
proof -
  have n: "length spec_square = 4" by (simp add: spec_square_def)
  have 1: "enlarge toBearing \<lparr>vertices = spec_square, enlargedVertices = []\<rparr> 1000
     = Inr \<lparr>vertices = spec_square,
           enlargedVertices = map (offsetVertex toBearing spec_square 1000) [0..<4]\<rparr>"
    by (simp add: enlarge_general n)
  have 2: "enlarge toBearing \<lparr>vertices = spec_square,
           enlargedVertices = map (offsetVertex toBearing spec_square 1000) [0..<4]\<rparr> 1000
     = Inr \<lparr>vertices = spec_square,
           enlargedVertices = map (offsetVertex toBearing spec_square 1000) [0..<4]
             @ map (offsetVertex toBearing spec_square 1000) [0..<4]\<rparr>"
    by (simp add: enlarge_general n)
  show ?thesis
    unfolding enlarge_twice_def 1 by (simp add: 2)
qed

text \<open>
  Claim C3 (input immutability) fails on the code at distance 0. For the square of the
  specification, \<^verbatim>\<open>enlarge(0)\<close> leaves \<^verbatim>\<open>vertices\<close> empty: the output is the input's own
  storage, handed over by \<^verbatim>\<open>std::move\<close>. For a nonzero distance the input is unchanged
  (lemma \<open>enlarge_general\<close>).
\<close>

theorem enlarge_zero_empties_input:
  "enlarge toBearing \<lparr>vertices = spec_square, enlargedVertices = []\<rparr> 0
     = Inr \<lparr>vertices = [], enlargedVertices = spec_square\<rparr>"
proof -
  have "length spec_square = 4" by (simp add: spec_square_def)
  then show ?thesis by (simp add: enlarge_zero)
qed

text \<open>
  Claim C4 (cardinality and index alignment) fails on the code for a polygon whose output
  storage is not empty, for instance after an earlier call. With one element left in
  \<^verbatim>\<open>enlargedVertices\<close>, the square and distance 1000 give five output entries, and entry 0
  is the stale element, not the offset of vertex 0. When the output storage is empty at
  the call, the output has exactly \<open>n\<close> entries and entry \<open>i\<close> is \<open>offsetVertex \<dots> i\<close>
  (lemma \<open>enlarge_fresh_output\<close>), where the bearing handed to \<^verbatim>\<open>movePoint\<close> is whatever
  \<open>toBearing\<close> makes of the \<^verbatim>\<open>LatLong\<close> that \<^verbatim>\<open>calculateAngleBisector\<close> returns.
\<close>

theorem enlarge_keeps_stale_output:
  "enlarge toBearing
     \<lparr>vertices = spec_square, enlargedVertices = [\<lparr>latitude = 5, longitude = 5\<rparr>]\<rparr> 1000
     = Inr \<lparr>vertices = spec_square,
           enlargedVertices = \<lparr>latitude = 5, longitude = 5\<rparr>
             # map (offsetVertex toBearing spec_square 1000) [0..<4]\<rparr>"
proof -
  have "length spec_square = 4" by (simp add: spec_square_def)
  then show ?thesis by (simp add: enlarge_general)
qed

text \<open>
  Claim C5 (reflex correction). In \<^verbatim>\<open>calculateAngleBisector\<close>, with \<open>bearing1\<close> the bearing
  from \<open>current\<close> to \<open>prev\<close> and \<open>bearing2\<close> the bearing from \<open>current\<close> to \<open>next\<close>: the turn
  \<open>bearing2 - bearing1\<close>, with \<open>2\<pi>\<close> added when it is negative, lies in \<open>[0, 2\<pi>)\<close>; when it
  exceeds \<open>\<pi>\<close> the final \<^verbatim>\<open>bisectorBearing\<close> is the mean of the two bearings plus \<open>\<pi>\<close>, taken
  modulo \<open>2\<pi>\<close> (the mean plus \<open>\<pi>\<close> when the mean is below \<open>\<pi>\<close>, the mean minus \<open>\<pi>\<close>
  otherwise); when it does not, the final \<^verbatim>\<open>bisectorBearing\<close> is the mean; and the final
  \<^verbatim>\<open>bisectorBearing\<close> lies in \<open>[0, 2\<pi>)\<close>.
\<close>

theorem reflex_correction:
  "(let bearing1 = calculateBearing current prev;
        bearing2 = calculateBearing current next;
        mean = (bearing1 + bearing2) / 2;
        delta = angleDifference prev current next;
        final = bisectorBearing prev current next
    in delta = (if bearing2 - bearing1 < 0 then bearing2 - bearing1 + 2 * pi
                else bearing2 - bearing1)
     \<and> 0 \<le> delta \<and> delta < 2 * pi
     \<and> final = (if delta > pi then (if mean < pi then mean + pi else mean - pi) else mean)
     \<and> 0 \<le> final \<and> final < 2 * pi)"
proof -
  have "angleDifference prev current next =
      (if calculateBearing current next - calculateBearing current prev < 0
       then calculateBearing current next - calculateBearing current prev + 2 * pi
       else calculateBearing current next - calculateBearing current prev)"
    by (simp add: angleDifference_def Let_def PI_def)
  then show ?thesis
    unfolding Let_def
    using angleDifference_range [of prev current "next"]
      bisectorBearing_cases [of prev current "next"]
      bisectorBearing_range [of prev current "next"]
    by blast
qed

text \<open>
  Claim C6 (scalar-bearing pipeline) fails on the code. At vertex (0, 0) of the square, with
  neighbours (0.01, 0) and (0, 0.01), the bisector bearing is \<open>\<pi>/4\<close>, but
  \<^verbatim>\<open>calculateAngleBisector\<close> returns the pair of its cosine and sine,
  \<^verbatim>\<open>LatLong(cos, sin)\<close> = \<open>(sqrt 2 / 2, sqrt 2 / 2)\<close>, a planar unit vector, and \<^verbatim>\<open>enlarge\<close> passes
  that object where \<^verbatim>\<open>movePoint\<close> declares \<^verbatim>\<open>double bearing\<close>.
\<close>

theorem calculateAngleBisector_returns_direction_vector:
  "bisectorBearing \<lparr>latitude = 0.01, longitude = 0\<rparr> \<lparr>latitude = 0, longitude = 0\<rparr>
     \<lparr>latitude = 0, longitude = 0.01\<rparr> = pi / 4
   \<and> calculateAngleBisector \<lparr>latitude = 0.01, longitude = 0\<rparr> \<lparr>latitude = 0, longitude = 0\<rparr>
     \<lparr>latitude = 0, longitude = 0.01\<rparr> = \<lparr>latitude = sqrt 2 / 2, longitude = sqrt 2 / 2\<rparr>"
proof -
  have "bisectorBearing \<lparr>latitude = 0.01, longitude = 0\<rparr> \<lparr>latitude = 0, longitude = 0\<rparr>
     \<lparr>latitude = 0, longitude = 0.01\<rparr> = pi / 4"
    by (rule bisector_convex_corner) simp_all
  then show ?thesis
    using calculateAngleBisector_at_origin by (rule conjI)
qed

text \<open>
  Claim C7 (silent no-op for small inputs). For a polygon with fewer than three vertices
  and any distance, \<^verbatim>\<open>enlarge\<close> returns normally (no error value) and the whole object,
  input vertices and output storage, is as it was.
\<close>

theorem enlarge_fewer_than_three_vertices:
  assumes "length (vertices P) < 3"
  shows "enlarge toBearing P distance = Inr P"
  using assms by (rule enlarge_small)

theorem enlarge_fewer_than_three_vertices_witness:
  "enlarge latitude
     \<lparr>vertices = [\<lparr>latitude = 0, longitude = 0\<rparr>, \<lparr>latitude = 0, longitude = 0.01\<rparr>],
      enlargedVertices = [\<lparr>latitude = 7, longitude = 7\<rparr>]\<rparr> 1000
   = Inr \<lparr>vertices = [\<lparr>latitude = 0, longitude = 0\<rparr>, \<lparr>latitude = 0, longitude = 0.01\<rparr>],
          enlargedVertices = [\<lparr>latitude = 7, longitude = 7\<rparr>]\<rparr>"
  using enlarge_fewer_than_three_vertices
    [where P = "\<lparr>vertices = [\<lparr>latitude = 0, longitude = 0\<rparr>, \<lparr>latitude = 0, longitude = 0.01\<rparr>],
      enlargedVertices = [\<lparr>latitude = 7, longitude = 7\<rparr>]\<rparr>" and toBearing = latitude
       and distance = 1000]
  by simp

text \<open>
  Claim C9 (bearing normalization). For every pair of points, \<^verbatim>\<open>calculateBearing\<close> is an
  angle in the half-open interval \<open>[0, 2\<pi>)\<close>.
\<close>

theorem calculateBearing_normalized:
  "0 \<le> calculateBearing from to \<and> calculateBearing from to < 2 * pi"
  using calculateBearing_range [of "from" to] by simp

text \<open>
  Claim C10 (output longitude can leave the documented range). There is a point with
  latitude in \<open>[-90, 90]\<close> and longitude in \<open>[-180, 180]\<close>, a bearing and a positive distance
  for which \<^verbatim>\<open>movePoint\<close> returns a longitude above 180: from (0, 180), due east
  (bearing \<open>\<pi>/2\<close>), 1000 metres, the longitude is \<open>180 + (1000 / 6371000) \<cdot> (180 / \<pi>)\<close>.
  \<^verbatim>\<open>movePoint\<close> adds the \<^verbatim>\<open>atan2\<close> term to \<open>lon1\<close> and converts to degrees with no
  wrap-around, and every entry \<^verbatim>\<open>enlarge\<close> appends is a result of \<^verbatim>\<open>movePoint\<close>.
\<close>

theorem movePoint_longitude_out_of_range:
  "\<exists>point bearing distance.
     - 90 \<le> latitude point \<and> latitude point \<le> 90
     \<and> - 180 \<le> longitude point \<and> longitude point \<le> 180
     \<and> 0 < distance
     \<and> 180 < longitude (movePoint point bearing distance)"
proof -
  have "1000 < 1 * EARTH_RADIUS" by (simp add: EARTH_RADIUS_def)
  also have "\<dots> \<le> pi / 2 * EARTH_RADIUS"
    using pi_ge_two by (intro mult_right_mono) (simp_all add: EARTH_RADIUS_def)
  finally have "movePoint \<lparr>latitude = 0, longitude = 180\<rparr> (pi / 2) 1000
       = \<lparr>latitude = 0, longitude = 180 + 1000 / EARTH_RADIUS * (180 / pi)\<rparr>"
    by (intro movePoint_east_of_antimeridian) simp_all
  then have "180 < longitude (movePoint \<lparr>latitude = 0, longitude = 180\<rparr> (pi / 2) 1000)"
    by (simp add: EARTH_RADIUS_def)
  then show ?thesis
    by (intro exI [of _ "\<lparr>latitude = 0, longitude = 180\<rparr>"] exI [of _ "pi / 2"]
        exI [of _ "1000 :: real"]) simp
qed


end
